theory Spec2Isabelle
  imports Main "HOL-Library.Log_Nat"
begin

section \<open>Python floats\<close>

text \<open>
  The probability, the thresholds and the constants of \<^verbatim>\<open>demo_predicao_diabetes.py\<close> are
  IEEE 754 binary64 numbers. A finite float is represented by the rational number it
  denotes. Comparisons of floats are then the comparisons of \<open>rat\<close>; a decimal literal
  and the result of an arithmetic operation are rounded to the nearest float, ties to
  the float with an even significand.

  Every finite float is an integer multiple of \<open>2 ^ -1074\<close>, the smallest subnormal. The
  floats around a number \<open>x\<close> are the multiples of \<open>2 ^ ulp_shift x / 2 ^ 1074\<close>:
  \<open>ulp_shift x\<close> is \<open>0\<close> for \<open>\<bar>x\<bar> < 2 ^ -1021\<close> (the subnormals and the first binade of
  normal floats), and above it is the \<open>s\<close> with \<open>2 ^ (52 + s) \<le> \<bar>x\<bar> * 2 ^ 1074 < 2 ^ (53 + s)\<close>,
  which leaves 53 significant bits. \<open>rne\<close> rounds to the nearest integer, a tie to the
  even one. Infinities and NaN are not represented: \<^verbatim>\<open>predict_proba\<close> returns finite
  numbers, and \<^verbatim>\<open>p - 0.5\<close> cannot overflow (lemma \<open>float_sub_half_finite\<close>).
\<close>

definition rne :: "rat \<Rightarrow> int" where
  "rne x = (let f = \<lfloor>x\<rfloor>; r = x - of_int f in
     if r < 1 / 2 then f else if 1 / 2 < r then f + 1 else if even f then f else f + 1)"

definition ulp_shift :: "rat \<Rightarrow> nat" where
  "ulp_shift x = nat (bitlen \<lfloor>\<bar>x\<bar> * 2 ^ 1074\<rfloor> - 53)"

definition round_double :: "rat \<Rightarrow> rat" where
  "round_double x =
     of_int (rne (x * 2 ^ 1074 / 2 ^ ulp_shift x)) * 2 ^ ulp_shift x / 2 ^ 1074"

definition is_double :: "rat \<Rightarrow> bool" where
  "is_double x \<longleftrightarrow> round_double x = x \<and> \<bar>x\<bar> < 2 ^ 1024"

text \<open>\<^verbatim>\<open>x - y\<close> and \<^verbatim>\<open>abs(x)\<close> on floats.\<close>

definition float_sub :: "rat \<Rightarrow> rat \<Rightarrow> rat" where
  "float_sub x y = round_double (x - y)"

definition float_abs :: "rat \<Rightarrow> rat" where
  "float_abs x = \<bar>x\<bar>"

section \<open>The string literals of the source\<close>

text \<open>
  Python strings are represented by their UTF-8 bytes. The five risk levels start with
  an emoji (U+1F534, U+1F7E0, U+1F7E1, U+1F7E2, U+1F49A) and a space.
\<close>

definition MUITO_ALTO :: string where
  "MUITO_ALTO = [CHR 0xF0, CHR 0x9F, CHR 0x94, CHR 0xB4] @ '' MUITO ALTO''"

definition ALTO :: string where
  "ALTO = [CHR 0xF0, CHR 0x9F, CHR 0x9F, CHR 0xA0] @ '' ALTO''"

definition MODERADO :: string where
  "MODERADO = [CHR 0xF0, CHR 0x9F, CHR 0x9F, CHR 0xA1] @ '' MODERADO''"

definition BAIXO :: string where
  "BAIXO = [CHR 0xF0, CHR 0x9F, CHR 0x9F, CHR 0xA2] @ '' BAIXO''"

definition MUITO_BAIXO :: string where
  "MUITO_BAIXO = [CHR 0xF0, CHR 0x9F, CHR 0x92, CHR 0x9A] @ '' MUITO BAIXO''"

definition descricao_MUITO_ALTO :: string where
  "descricao_MUITO_ALTO =
     ''Forte indica'' @ [CHR 0xC3, CHR 0xA7, CHR 0xC3, CHR 0xA3] @
     ''o de diabetes - Investiga'' @ [CHR 0xC3, CHR 0xA7, CHR 0xC3, CHR 0xA3] @ ''o urgente''"

definition descricao_ALTO :: string where
  "descricao_ALTO = ''Risco elevado - Exames complementares recomendados''"

definition descricao_MODERADO :: string where
  "descricao_MODERADO = ''Risco moderado - Monitoramento regular''"

definition descricao_BAIXO :: string where
  "descricao_BAIXO =
     ''Risco baixo - Preven'' @ [CHR 0xC3, CHR 0xA7, CHR 0xC3, CHR 0xA3] @
     ''o e estilo de vida saud'' @ [CHR 0xC3, CHR 0xA1] @ ''vel''"

definition descricao_MUITO_BAIXO :: string where
  "descricao_MUITO_BAIXO =
     ''Risco muito baixo - Manter h'' @ [CHR 0xC3, CHR 0xA1] @ ''bitos saud'' @
     [CHR 0xC3, CHR 0xA1] @ ''veis''"

definition DIABETES :: string where
  "DIABETES = ''DIABETES''"

definition NAO_DIABETES :: string where
  "NAO_DIABETES = ''N'' @ [CHR 0xC3, CHR 0x83] @ ''O-DIABETES''"

definition Alta :: string where
  "Alta = ''Alta''"

definition Moderada :: string where
  "Moderada = ''Moderada''"

section \<open>interpretar_risco\<close>

definition interpretar_risco :: "rat \<Rightarrow> string \<times> string" where
  "interpretar_risco probabilidade =
     (if round_double 0.8 \<le> probabilidade then (MUITO_ALTO, descricao_MUITO_ALTO)
      else if round_double 0.6 \<le> probabilidade then (ALTO, descricao_ALTO)
      else if round_double 0.4 \<le> probabilidade then (MODERADO, descricao_MODERADO)
      else if round_double 0.2 \<le> probabilidade then (BAIXO, descricao_BAIXO)
      else (MUITO_BAIXO, descricao_MUITO_BAIXO))"

section \<open>predizer_diabetes\<close>

text \<open>
  The result dictionary has seven fixed keys, the fields of the record \<open>resultado\<close>. The
  arguments \<^verbatim>\<open>threshold\<close> and \<^verbatim>\<open>contexto\<close> and the locals that share a name with a field
  carry the suffix \<open>0\<close> below. The exceptions that can leave the function
  are values: \<open>SchemaError\<close> is the \<^verbatim>\<open>ValueError\<close> of \<^verbatim>\<open>pd.DataFrame\<close> when the row and
  \<^verbatim>\<open>columns\<close> differ in length, \<open>ModelOutputError\<close> the \<^verbatim>\<open>IndexError\<close> of \<^verbatim>\<open>[0][1]\<close>, and
  \<open>ProviderError\<close> whatever the scaler or the model raise themselves.
\<close>

record resultado =
  predicao :: string
  probabilidade :: rat
  nivel_risco :: string
  descricao_risco :: string
  threshold_usado :: rat
  contexto :: string
  confianca :: string

datatype error = SchemaError | ModelOutputError | ProviderError string

type_synonym dataframe = "(string \<times> rat) list"

text \<open>
  The scaler and the model are arguments of the function: \<^verbatim>\<open>scaler.transform\<close> maps the
  one-row frame to a normalised row of some type \<open>'n\<close>, \<^verbatim>\<open>modelo.predict_proba\<close> maps that
  to a matrix of floats; either may raise.
\<close>

type_synonym 'n scaler = "dataframe \<Rightarrow> error + 'n"

type_synonym 'n modelo = "'n \<Rightarrow> error + rat list list"

definition thresholds_contexto :: "string \<rightharpoonup> rat" where
  "thresholds_contexto = map_of
     [(''triagem'', round_double 0.35),
      (''consulta_medica'', round_double 0.45),
      (''preventiva'', round_double 0.60)]"

text \<open>\<^verbatim>\<open>pd.DataFrame([row], columns=columns)\<close>: one row, bound to the names by position.\<close>

definition DataFrame :: "rat list \<Rightarrow> string list \<Rightarrow> error + dataframe" where
  "DataFrame row columns =
     (if length row \<noteq> length columns then Inl SchemaError else Inr (zip columns row))"

text \<open>\<^verbatim>\<open>xs[i]\<close> at a constant index \<open>i \<ge> 0\<close>.\<close>

definition getitem :: "'a list \<Rightarrow> nat \<Rightarrow> error + 'a" where
  "getitem xs i = (if i < length xs then Inr (xs ! i) else Inl ModelOutputError)"

definition predizer_diabetes ::
  "rat list \<Rightarrow> 'n modelo \<Rightarrow> 'n scaler \<Rightarrow> string list \<Rightarrow> rat \<Rightarrow> string \<Rightarrow> error + resultado"
where
  "predizer_diabetes dados_paciente modelo scaler feature_columns threshold0 contexto0 =
    (let threshold = (case thresholds_contexto contexto0 of
                        Some t \<Rightarrow> t
                      | None \<Rightarrow> threshold0)
     in case DataFrame dados_paciente feature_columns of
       Inl e \<Rightarrow> Inl e
     | Inr dados_df \<Rightarrow>
     (case scaler dados_df of
       Inl e \<Rightarrow> Inl e
     | Inr dados_normalizados \<Rightarrow>
     (case modelo dados_normalizados of
       Inl e \<Rightarrow> Inl e
     | Inr proba \<Rightarrow>
     (case getitem proba 0 of
       Inl e \<Rightarrow> Inl e
     | Inr proba0 \<Rightarrow>
     (case getitem proba0 1 of
       Inl e \<Rightarrow> Inl e
     | Inr probabilidade0 \<Rightarrow>
       (let predicao0 = (if threshold \<le> probabilidade0 then 1 else 0 :: int);
            (nivel_risco0, descricao_risco0) = interpretar_risco probabilidade0
        in Inr \<lparr>predicao = (if predicao0 = 1 then DIABETES else NAO_DIABETES),
                 probabilidade = probabilidade0,
                 nivel_risco = nivel_risco0,
                 descricao_risco = descricao_risco0,
                 threshold_usado = threshold,
                 contexto = contexto0,
                 confianca =
                   (if round_double 0.3 < float_abs (float_sub probabilidade0 (round_double 0.5))
                    then Alta else Moderada)\<rparr>))))))"


section \<open>predizer_diabetes with the state of its collaborators\<close>

text \<open>
  \<^verbatim>\<open>scaler.transform\<close> and \<^verbatim>\<open>modelo.predict_proba\<close> are method calls on objects that the
  caller passes in; in Python they may read and change state. Here they take a state
  \<open>'w\<close> and return the new one, and \<open>predizer_diabetes_st\<close> threads the state through
  the two calls in the order of the source. The rest of the body touches no state: the
  table is a dict literal built on each call, the frame is built from the arguments, and
  the function neither prints nor reads a global, a file or the clock.
\<close>

type_synonym ('w, 'n) scaler_st = "dataframe \<Rightarrow> 'w \<Rightarrow> (error + 'n) \<times> 'w"

type_synonym ('w, 'n) modelo_st = "'n \<Rightarrow> 'w \<Rightarrow> (error + rat list list) \<times> 'w"

definition predizer_diabetes_st ::
  "rat list \<Rightarrow> ('w, 'n) modelo_st \<Rightarrow> ('w, 'n) scaler_st \<Rightarrow> string list \<Rightarrow> rat \<Rightarrow> string
     \<Rightarrow> 'w \<Rightarrow> (error + resultado) \<times> 'w"
where
  "predizer_diabetes_st dados_paciente modelo scaler feature_columns threshold0 contexto0 w =
    (let threshold = (case thresholds_contexto contexto0 of
                        Some t \<Rightarrow> t
                      | None \<Rightarrow> threshold0)
     in case DataFrame dados_paciente feature_columns of
       Inl e \<Rightarrow> (Inl e, w)
     | Inr dados_df \<Rightarrow>
     (case scaler dados_df w of
       (Inl e, w1) \<Rightarrow> (Inl e, w1)
     | (Inr dados_normalizados, w1) \<Rightarrow>
     (case modelo dados_normalizados w1 of
       (Inl e, w2) \<Rightarrow> (Inl e, w2)
     | (Inr proba, w2) \<Rightarrow>
     (case getitem proba 0 of
       Inl e \<Rightarrow> (Inl e, w2)
     | Inr proba0 \<Rightarrow>
     (case getitem proba0 1 of
       Inl e \<Rightarrow> (Inl e, w2)
     | Inr probabilidade0 \<Rightarrow>
       (let predicao0 = (if threshold \<le> probabilidade0 then 1 else 0 :: int);
            (nivel_risco0, descricao_risco0) = interpretar_risco probabilidade0
        in (Inr \<lparr>predicao = (if predicao0 = 1 then DIABETES else NAO_DIABETES),
                 probabilidade = probabilidade0,
                 nivel_risco = nivel_risco0,
                 descricao_risco = descricao_risco0,
                 threshold_usado = threshold,
                 contexto = contexto0,
                 confianca =
                   (if round_double 0.3 < float_abs (float_sub probabilidade0 (round_double 0.5))
                    then Alta else Moderada)\<rparr>, w2)))))))"

section \<open>Example inputs\<close>

text \<open>
  The borderline patient of \<^verbatim>\<open>comparar_thresholds\<close> and the eight feature names of the
  docstring. The unpickled scaler and forest are replaced by stand-ins: a scaler that
  returns the row as it is, and a model that returns the probability \<open>p\<close> for every row.
\<close>

definition feature_columns_demo :: "string list" where
  "feature_columns_demo =
     [''Pregnancies'', ''Glucose'', ''BloodPressure'', ''SkinThickness'', ''Insulin'', ''BMI'',
      ''DiabetesPedigreeFunction'', ''Age'']"

definition dados_limitrofe :: "rat list" where
  "dados_limitrofe = [2, 125, 80, 28, 120, 29.0, 0.5, 40]"

definition scaler_demo :: "rat list scaler" where
  "scaler_demo dados_df = Inr (map snd dados_df)"

definition modelo_demo :: "rat \<Rightarrow> rat list modelo" where
  "modelo_demo p dados_normalizados = Inr [[1 - p, p]]"

text \<open>
  The same stand-ins with a state they ignore, and a model that counts its calls in the
  state and answers \<open>1/2\<close> on even counts and \<open>13/16\<close> on odd ones.
\<close>

definition scaler_st_demo :: "(nat, rat list) scaler_st" where
  "scaler_st_demo dados_df w = (scaler_demo dados_df, w)"


definition modelo_contador :: "(nat, rat list) modelo_st" where
  "modelo_contador dados_normalizados w =
     (Inr [[1 / 2, if even w then 1 / 2 else 13 / 16]], Suc w)"

section \<open>Shape of a successful call\<close>

lemma predizer_diabetes_Inr:
  assumes "predizer_diabetes d m s f t c = Inr r"
  obtains p where
    "r = \<lparr>predicao =
            (if (case thresholds_contexto c of Some t' \<Rightarrow> t' | None \<Rightarrow> t) \<le> p
             then DIABETES else NAO_DIABETES),
          probabilidade = p,
          nivel_risco = fst (interpretar_risco p),
          descricao_risco = snd (interpretar_risco p),
          threshold_usado = (case thresholds_contexto c of Some t' \<Rightarrow> t' | None \<Rightarrow> t),
          contexto = c,
          confianca =
            (if round_double 0.3 < float_abs (float_sub p (round_double 0.5))
             then Alta else Moderada)\<rparr>"
  using assms
  by (auto simp: predizer_diabetes_def Let_def split: sum.splits prod.splits)

lemma probabilidade_from_model:
  assumes "predizer_diabetes d m s f t c = Inr r"
  shows "\<exists>dados_df dados_normalizados proba.
           DataFrame d f = Inr dados_df \<and> s dados_df = Inr dados_normalizados
           \<and> m dados_normalizados = Inr proba
           \<and> 0 < length proba \<and> 1 < length (proba ! 0)
           \<and> probabilidade r = proba ! 0 ! 1"
  using assms
  by (auto simp: predizer_diabetes_def getitem_def Let_def
      split: sum.splits prod.splits if_splits)

section \<open>Rounding to the nearest integer\<close>

lemma rne_cases: "rne x = \<lfloor>x\<rfloor> \<or> rne x = \<lfloor>x\<rfloor> + 1"
  by (simp add: rne_def Let_def)

lemma rne_of_int: "rne (of_int k) = k"
  by (simp add: rne_def Let_def)

lemma rne_mono: "x \<le> y \<Longrightarrow> rne x \<le> rne y"
proof -
  assume xy: "x \<le> y"
  have fg: "\<lfloor>x\<rfloor> \<le> \<lfloor>y\<rfloor>" using xy by (rule floor_mono)
  show ?thesis
  proof (cases "\<lfloor>x\<rfloor> = \<lfloor>y\<rfloor>")
    case True
    then show ?thesis using xy by (auto simp: rne_def Let_def)
  next
    case False
    then have "\<lfloor>x\<rfloor> + 1 \<le> \<lfloor>y\<rfloor>" using fg by simp
    moreover have "rne x \<le> \<lfloor>x\<rfloor> + 1" using rne_cases [of x] by auto
    moreover have "\<lfloor>y\<rfloor> \<le> rne y" using rne_cases [of y] by auto
    ultimately show ?thesis by linarith
  qed
qed

lemma rne_minus: "rne (- x) = - rne x"
proof (cases "x \<in> \<int>")
  case True
  then obtain k where "x = of_int k" by (auto elim: Ints_cases)
  then show ?thesis using rne_of_int [of k] rne_of_int [of "- k"] by simp
next
  case False
  have ne: "x \<noteq> of_int \<lfloor>x\<rfloor>"
  proof
    assume "x = of_int \<lfloor>x\<rfloor>"
    then have "x \<in> \<int>" using Ints_of_int [of "\<lfloor>x\<rfloor>", where 'a = rat] by simp
    then show False using False by simp
  qed
  then have fl: "\<lfloor>- x\<rfloor> = - \<lfloor>x\<rfloor> - 1"
    by (simp add: floor_minus ceiling_altdef)
  show ?thesis
    unfolding rne_def Let_def fl using ne by (auto simp: algebra_simps)
qed

lemma rne_near: "\<bar>y - of_int m\<bar> < 1 / 2 \<Longrightarrow> rne y = m"
proof -
  assume a: "\<bar>y - of_int m\<bar> < 1 / 2"
  show ?thesis
  proof (cases "of_int m \<le> y")
    case True
    then have "\<lfloor>y\<rfloor> = m" using a by (intro floor_unique) auto
    then show ?thesis using a True by (auto simp: rne_def Let_def)
  next
    case False
    then have "\<lfloor>y\<rfloor> = m - 1" using a by (intro floor_unique) auto
    then show ?thesis using a False by (auto simp: rne_def Let_def)
  qed
qed

lemma rne_tie: "y = of_int m + 1 / 2 \<Longrightarrow> rne y = (if even m then m else m + 1)"
proof -
  assume a: "y = of_int m + 1 / 2"
  have "\<lfloor>y\<rfloor> = m" using a by (intro floor_unique) auto
  then show ?thesis using a by (auto simp: rne_def Let_def)
qed

section \<open>Rounding to the nearest float is monotone\<close>

lemma ulp_shift_le_iff: "ulp_shift x \<le> s \<longleftrightarrow> \<bar>x\<bar> * 2 ^ 1074 < 2 ^ (53 + s)"
proof -
  define n where "n = \<lfloor>\<bar>x\<bar> * 2 ^ 1074\<rfloor>"
  have "ulp_shift x \<le> s \<longleftrightarrow> bitlen n \<le> 53 + int s"
    unfolding ulp_shift_def n_def [symmetric] by linarith
  also have "\<dots> \<longleftrightarrow> n < 2 ^ (53 + s)"
    by (simp add: bitlen_le_iff_power nat_add_distrib)
  also have "\<dots> \<longleftrightarrow> \<bar>x\<bar> * 2 ^ 1074 < of_int (2 ^ (53 + s))"
    unfolding n_def by (rule floor_less_iff)
  finally show ?thesis by simp
qed

lemma ulp_shift_bound: "\<bar>x\<bar> * 2 ^ 1074 < 2 ^ (53 + ulp_shift x)"
  using ulp_shift_le_iff [of x "ulp_shift x"] by simp

lemma ulp_shift_ge: "2 ^ (52 + s) \<le> \<bar>x\<bar> * 2 ^ 1074 \<Longrightarrow> s \<le> ulp_shift x"
proof (cases s)
  case 0
  then show ?thesis by simp
next
  case (Suc k)
  assume "2 ^ (52 + s) \<le> \<bar>x\<bar> * 2 ^ 1074"
  then have "\<not> \<bar>x\<bar> * 2 ^ 1074 < 2 ^ (53 + k)" using Suc by simp
  then have "\<not> ulp_shift x \<le> k" by (simp add: ulp_shift_le_iff)
  then show ?thesis using Suc by simp
qed

lemma ulp_shift_pos: "0 < ulp_shift x \<Longrightarrow> 2 ^ (52 + ulp_shift x) \<le> \<bar>x\<bar> * 2 ^ 1074"
proof -
  assume "0 < ulp_shift x"
  then obtain k where k: "ulp_shift x = Suc k" by (cases "ulp_shift x") auto
  then have "\<not> ulp_shift x \<le> k" by simp
  then have "\<not> \<bar>x\<bar> * 2 ^ 1074 < 2 ^ (53 + k)" by (simp add: ulp_shift_le_iff)
  then show ?thesis using k by simp
qed

lemma ulp_shift_eq:
  "2 ^ (52 + s) \<le> \<bar>x\<bar> * 2 ^ 1074 \<Longrightarrow> \<bar>x\<bar> * 2 ^ 1074 < 2 ^ (53 + s) \<Longrightarrow> ulp_shift x = s"
  using ulp_shift_ge [of s x] ulp_shift_le_iff [of x s] by simp

lemma ulp_shift_mono: "\<bar>x\<bar> \<le> \<bar>y\<bar> \<Longrightarrow> ulp_shift x \<le> ulp_shift y"
proof -
  assume "\<bar>x\<bar> \<le> \<bar>y\<bar>"
  then have "\<bar>x\<bar> * 2 ^ 1074 \<le> \<bar>y\<bar> * 2 ^ 1074" by (simp del: power_numeral)
  also have "\<dots> < 2 ^ (53 + ulp_shift y)" by (rule ulp_shift_bound)
  finally show ?thesis by (simp add: ulp_shift_le_iff)
qed

lemma ulp_shift_minus: "ulp_shift (- x) = ulp_shift x"
  by (simp add: ulp_shift_def)

lemma round_double_minus: "round_double (- x) = - round_double x"
  by (simp add: round_double_def ulp_shift_minus rne_minus del: power_numeral)

lemma round_double_scaled:
  "round_double x * 2 ^ 1074 = of_int (rne (x * 2 ^ 1074 / 2 ^ ulp_shift x)) * 2 ^ ulp_shift x"
  by (simp add: round_double_def del: power_numeral)

lemma round_double_upper:
  assumes "0 \<le> x"
  shows "round_double x * 2 ^ 1074 \<le> 2 ^ (53 + ulp_shift x)"
proof -
  define s where "s = ulp_shift x"
  have "x * 2 ^ 1074 < 2 ^ (53 + s)"
    using ulp_shift_bound [of x] assms unfolding s_def by simp
  then have "x * 2 ^ 1074 / 2 ^ s \<le> 2 ^ 53"
    by (simp add: divide_le_eq power_add del: power_numeral)
  then have "rne (x * 2 ^ 1074 / 2 ^ s) \<le> rne (of_int (2 ^ 53))"
    by (intro rne_mono) (simp del: power_numeral)
  then have "rne (x * 2 ^ 1074 / 2 ^ s) \<le> 2 ^ 53"
    by (simp only: rne_of_int)
  then have "rat_of_int (rne (x * 2 ^ 1074 / 2 ^ s)) \<le> of_int (2 ^ 53)"
    by (simp only: of_int_le_iff)
  then have "rat_of_int (rne (x * 2 ^ 1074 / 2 ^ s)) * 2 ^ s \<le> 2 ^ 53 * 2 ^ s"
    by (simp del: power_numeral)
  then show ?thesis
    unfolding round_double_scaled s_def [symmetric] by (simp add: power_add del: power_numeral)
qed

lemma round_double_lower:
  assumes "0 \<le> x" "0 < ulp_shift x"
  shows "2 ^ (52 + ulp_shift x) \<le> round_double x * 2 ^ 1074"
proof -
  define s where "s = ulp_shift x"
  have "2 ^ (52 + s) \<le> x * 2 ^ 1074"
    using ulp_shift_pos [of x] assms unfolding s_def by simp
  then have "2 ^ 52 \<le> x * 2 ^ 1074 / 2 ^ s"
    by (simp add: le_divide_eq power_add del: power_numeral)
  then have "rne (of_int (2 ^ 52)) \<le> rne (x * 2 ^ 1074 / 2 ^ s)"
    by (intro rne_mono) (simp del: power_numeral)
  then have "2 ^ 52 \<le> rne (x * 2 ^ 1074 / 2 ^ s)"
    by (simp only: rne_of_int)
  then have "rat_of_int (2 ^ 52) \<le> of_int (rne (x * 2 ^ 1074 / 2 ^ s))"
    by (simp only: of_int_le_iff)
  then have "2 ^ 52 * 2 ^ s \<le> rat_of_int (rne (x * 2 ^ 1074 / 2 ^ s)) * 2 ^ s"
    by (simp del: power_numeral)
  then show ?thesis
    unfolding round_double_scaled s_def [symmetric] by (simp add: power_add del: power_numeral)
qed

lemma round_double_nonneg: "0 \<le> x \<Longrightarrow> 0 \<le> round_double x"
proof -
  assume "0 \<le> x"
  then have "rne 0 \<le> rne (x * 2 ^ 1074 / 2 ^ ulp_shift x)"
    by (intro rne_mono) (simp del: power_numeral)
  moreover have "rne 0 = 0" using rne_of_int [of 0] by simp
  ultimately show ?thesis by (simp add: round_double_def del: power_numeral)
qed

lemma round_double_mono_nonneg:
  assumes "0 \<le> x" "x \<le> y"
  shows "round_double x \<le> round_double y"
proof -
  have y: "0 \<le> y" using assms by simp
  have le: "ulp_shift x \<le> ulp_shift y" using assms by (intro ulp_shift_mono) simp
  have "round_double x * 2 ^ 1074 \<le> round_double y * 2 ^ 1074"
  proof (cases "ulp_shift x = ulp_shift y")
    case True
    have "x * 2 ^ 1074 / 2 ^ ulp_shift y \<le> y * 2 ^ 1074 / 2 ^ ulp_shift y"
      using assms by (simp add: divide_right_mono del: power_numeral)
    then have "rne (x * 2 ^ 1074 / 2 ^ ulp_shift y) \<le> rne (y * 2 ^ 1074 / 2 ^ ulp_shift y)"
      by (rule rne_mono)
    then show ?thesis
      unfolding round_double_scaled True by (simp del: power_numeral)
  next
    case False
    then have lt: "ulp_shift x < ulp_shift y" using le by simp
    have "round_double x * 2 ^ 1074 \<le> 2 ^ (53 + ulp_shift x)"
      using assms(1) by (rule round_double_upper)
    also have "\<dots> \<le> (2::rat) ^ (52 + ulp_shift y)"
      using lt by (intro power_increasing) auto
    also have "\<dots> \<le> round_double y * 2 ^ 1074"
      using y lt by (intro round_double_lower) auto
    finally show ?thesis .
  qed
  then show ?thesis by (simp del: power_numeral)
qed

lemma round_double_mono: "x \<le> y \<Longrightarrow> round_double x \<le> round_double y"
proof -
  assume xy: "x \<le> y"
  consider "0 \<le> x" | "x < 0" "0 \<le> y" | "y < 0" by linarith
  then show ?thesis
  proof cases
    case 1
    then show ?thesis using xy by (rule round_double_mono_nonneg)
  next
    case 2
    have "0 \<le> round_double (- x)" using 2 by (intro round_double_nonneg) simp
    then have "round_double x \<le> 0" by (simp add: round_double_minus)
    also have "0 \<le> round_double y" using 2 by (intro round_double_nonneg)
    finally show ?thesis .
  next
    case 3
    have "round_double (- y) \<le> round_double (- x)"
      using 3 xy by (intro round_double_mono_nonneg) auto
    then show ?thesis by (simp add: round_double_minus)
  qed
qed

section \<open>Evaluating the rounding inside one binade\<close>

text \<open>
  For \<open>2 ^ 52 \<le> \<bar>x\<bar> * 2 ^ j < 2 ^ 53\<close> the floats around \<open>x\<close> are the multiples of
  \<open>2 ^ -j\<close>: \<open>j = 53\<close> on \<open>[1/2, 1)\<close>, \<open>54\<close> on \<open>[1/4, 1/2)\<close>, \<open>55\<close> on \<open>[1/8, 1/4)\<close>.
\<close>

lemma scale_split:
  assumes "j \<le> 1074"
  shows "(2::rat) ^ 1074 = 2 ^ j * 2 ^ (1074 - j)"
  using assms by (simp add: power_add [symmetric] del: power_numeral)

lemma ulp_shift_binade:
  assumes j: "j \<le> 1074" and lo: "2 ^ 52 \<le> \<bar>x\<bar> * 2 ^ j" and hi: "\<bar>x\<bar> * 2 ^ j < 2 ^ 53"
  shows "ulp_shift x = 1074 - j"
proof (rule ulp_shift_eq)
  have pos: "(0::rat) < 2 ^ (1074 - j)" by simp
  have "2 ^ 52 * 2 ^ (1074 - j) \<le> (\<bar>x\<bar> * 2 ^ j) * 2 ^ (1074 - j)"
    using lo pos by (simp only: mult_le_cancel_right_pos)
  then show "2 ^ (52 + (1074 - j)) \<le> \<bar>x\<bar> * 2 ^ 1074"
    unfolding scale_split [OF j] by (simp only: power_add mult.assoc)
  have "(\<bar>x\<bar> * 2 ^ j) * 2 ^ (1074 - j) < 2 ^ 53 * 2 ^ (1074 - j)"
    using hi pos by (simp only: mult_less_cancel_right_pos)
  then show "\<bar>x\<bar> * 2 ^ 1074 < 2 ^ (53 + (1074 - j))"
    unfolding scale_split [OF j] by (simp only: power_add mult.assoc)
qed

lemma round_double_binade:
  assumes j: "j \<le> 1074" and lo: "2 ^ 52 \<le> \<bar>x\<bar> * 2 ^ j" and hi: "\<bar>x\<bar> * 2 ^ j < 2 ^ 53"
  shows "round_double x = of_int (rne (x * 2 ^ j)) / 2 ^ j"
proof -
  have s: "ulp_shift x = 1074 - j" using assms by (rule ulp_shift_binade)
  have "x * 2 ^ 1074 / 2 ^ (1074 - j) = x * 2 ^ j"
    unfolding scale_split [OF j] by simp
  moreover have "rat_of_int n * 2 ^ (1074 - j) / 2 ^ 1074 = of_int n / 2 ^ j" for n
    unfolding scale_split [OF j] by simp
  ultimately show ?thesis
    unfolding round_double_def s by (simp only:)
qed

lemma round_double_near:
  assumes "j \<le> 1074" "2 ^ 52 \<le> \<bar>x\<bar> * 2 ^ j" "\<bar>x\<bar> * 2 ^ j < 2 ^ 53"
    and "\<bar>x * 2 ^ j - of_int m\<bar> < 1 / 2"
  shows "round_double x = of_int m / 2 ^ j"
  using round_double_binade [OF assms(1-3)] rne_near [OF assms(4)] by simp

lemma round_double_tie:
  assumes "j \<le> 1074" "2 ^ 52 \<le> \<bar>x\<bar> * 2 ^ j" "\<bar>x\<bar> * 2 ^ j < 2 ^ 53"
    and "x * 2 ^ j = of_int m + 1 / 2"
  shows "round_double x = of_int (if even m then m else m + 1) / 2 ^ j"
  using round_double_binade [OF assms(1-3)] rne_tie [OF assms(4)] by simp

lemma double_spacing:
  assumes fx: "round_double p = p" and j: "j \<le> 1074" and lo: "2 ^ 52 \<le> \<bar>p\<bar> * 2 ^ j"
  shows "\<exists>m::int. p = of_int m / 2 ^ j"
proof -
  have pos: "(0::rat) < 2 ^ (1074 - j)" by simp
  have "2 ^ 52 * 2 ^ (1074 - j) \<le> (\<bar>p\<bar> * 2 ^ j) * 2 ^ (1074 - j)"
    using lo pos by (simp only: mult_le_cancel_right_pos)
  then have "2 ^ (52 + (1074 - j)) \<le> \<bar>p\<bar> * 2 ^ 1074"
    unfolding scale_split [OF j] by (simp only: power_add mult.assoc)
  then have le: "1074 - j \<le> ulp_shift p" by (rule ulp_shift_ge)
  define n where "n = rne (p * 2 ^ 1074 / 2 ^ ulp_shift p)"
  define d where "d = ulp_shift p - (1074 - j)"
  have s: "ulp_shift p = d + (1074 - j)" using le by (simp add: d_def)
  have "p * 2 ^ 1074 = of_int n * 2 ^ ulp_shift p"
    using round_double_scaled [of p] unfolding fx n_def .
  then have "(p * 2 ^ j) * 2 ^ (1074 - j) = (of_int n * 2 ^ d) * 2 ^ (1074 - j)"
    unfolding scale_split [OF j] s by (simp only: power_add mult.assoc)
  then have "p * 2 ^ j = of_int n * 2 ^ d" using pos by simp
  then have "p * 2 ^ j = of_int (n * 2 ^ d)" by simp
  then have "p = of_int (n * 2 ^ d) / 2 ^ j" by (simp add: eq_divide_eq)
  then show ?thesis ..
qed

lemma float_0_5: "round_double 0.5 = 1 / 2"
  using round_double_near [of 53 "0.5" 4503599627370496] by simp

lemma float_0_3: "round_double 0.3 = 5404319552844595 / 18014398509481984"
  using round_double_near [of 54 "0.3" 5404319552844595] by simp

lemma float_0_8: "round_double 0.8 = 7205759403792794 / 9007199254740992"
  using round_double_near [of 53 "0.8" 7205759403792794] by simp

lemma float_0_2: "round_double 0.2 = 7205759403792794 / 36028797018963968"
  using round_double_near [of 55 "0.2" 7205759403792794] by simp

section \<open>The test of the confidence tag\<close>

text \<open>
  \<^verbatim>\<open>abs(p - 0.5) > 0.3\<close> in float arithmetic. The float \<open>0.3\<close> is
  \<open>5404319552844595 / 2 ^ 54\<close>; its successor is \<open>0.8 - 0.5\<close>, and the predecessor of the
  float \<open>0.2\<close> lies half a spacing beyond \<open>0.5 - 0.3\<close>, a tie that rounds away from \<open>0.3\<close>.
\<close>

lemma fix_N: "round_double (5404319552844596 / 18014398509481984) = 5404319552844596 / 18014398509481984"
  using round_double_near [of 54 "5404319552844596 / 18014398509481984" 5404319552844596] by simp

lemma fix_L: "round_double (5404319552844594 / 18014398509481984) = 5404319552844594 / 18014398509481984"
  using round_double_near [of 54 "5404319552844594 / 18014398509481984" 5404319552844594] by simp

lemma fix_c03: "round_double (5404319552844595 / 18014398509481984) = 5404319552844595 / 18014398509481984"
  using round_double_near [of 54 "5404319552844595 / 18014398509481984" 5404319552844595] by simp

lemma tie_T: "round_double (10808639105689191 / 36028797018963968) = 5404319552844596 / 18014398509481984"
  using round_double_tie [of 54 "10808639105689191 / 36028797018963968" 5404319552844595] by simp

lemma double_below_c08:
  assumes "round_double p = p" "p < 7205759403792794 / 9007199254740992"
  shows "p \<le> 7205759403792793 / 9007199254740992"
proof (cases "1 / 2 \<le> p")
  case True
  then have "2 ^ 52 \<le> \<bar>p\<bar> * 2 ^ 53" by simp
  with assms(1) obtain m :: int where m: "p = of_int m / 2 ^ 53"
    using double_spacing [of p 53] by auto
  then have "rat_of_int m < of_int 7205759403792794" using assms(2) by simp
  then have "m < 7205759403792794" by (simp only: of_int_less_iff)
  then have "m \<le> 7205759403792793" by simp
  then have "rat_of_int m \<le> of_int 7205759403792793" by (simp only: of_int_le_iff)
  then show ?thesis using m by simp
next
  case False
  then show ?thesis by simp
qed

lemma double_below_c02:
  assumes "round_double p = p" "p < 7205759403792794 / 36028797018963968"
  shows "p \<le> 7205759403792793 / 36028797018963968"
proof (cases "1 / 8 \<le> p")
  case True
  then have "2 ^ 52 \<le> \<bar>p\<bar> * 2 ^ 55" by simp
  with assms(1) obtain m :: int where m: "p = of_int m / 2 ^ 55"
    using double_spacing [of p 55] by auto
  then have "rat_of_int m < of_int 7205759403792794" using assms(2) by simp
  then have "m < 7205759403792794" by (simp only: of_int_less_iff)
  then have "m \<le> 7205759403792793" by simp
  then have "rat_of_int m \<le> of_int 7205759403792793" by (simp only: of_int_le_iff)
  then show ?thesis using m by simp
next
  case False
  then show ?thesis by simp
qed

lemma confianca_test_iff:
  assumes fx: "round_double p = p"
  shows "round_double 0.3 < float_abs (float_sub p (round_double 0.5))
           \<longleftrightarrow> round_double 0.8 \<le> p \<or> p < round_double 0.2"
proof -
  let ?d = "round_double (p - 1 / 2)"
  let ?c = "5404319552844595 / 18014398509481984 :: rat"
  have goal: "?thesis \<longleftrightarrow> (?c < \<bar>?d\<bar> \<longleftrightarrow>
      7205759403792794 / 9007199254740992 \<le> p \<or> p < 7205759403792794 / 36028797018963968)"
    unfolding float_abs_def float_sub_def float_0_5 float_0_3 float_0_8 float_0_2 by simp
  consider (hi) "7205759403792794 / 9007199254740992 \<le> p"
    | (lo) "p < 7205759403792794 / 36028797018963968"
    | (mid) "7205759403792794 / 36028797018963968 \<le> p" "p < 7205759403792794 / 9007199254740992"
    by linarith
  then have "?c < \<bar>?d\<bar> \<longleftrightarrow>
      7205759403792794 / 9007199254740992 \<le> p \<or> p < 7205759403792794 / 36028797018963968"
  proof cases
    case hi
    then have "5404319552844596 / 18014398509481984 \<le> p - 1 / 2" by simp
    then have "round_double (5404319552844596 / 18014398509481984) \<le> ?d"
      by (rule round_double_mono)
    then have "5404319552844596 / 18014398509481984 \<le> ?d" by (simp only: fix_N)
    then have "?c < \<bar>?d\<bar>" by simp
    then show ?thesis using hi by simp
  next
    case lo
    with fx have "p \<le> 7205759403792793 / 36028797018963968" by (rule double_below_c02)
    then have "p - 1 / 2 \<le> - (10808639105689191 / 36028797018963968)" by simp
    then have "?d \<le> round_double (- (10808639105689191 / 36028797018963968))"
      by (rule round_double_mono)
    then have "?d \<le> - (5404319552844596 / 18014398509481984)"
      by (simp only: round_double_minus tie_T)
    then have "?c < \<bar>?d\<bar>" by simp
    then show ?thesis using lo by simp
  next
    case mid
    from fx mid(2) have "p \<le> 7205759403792793 / 9007199254740992" by (rule double_below_c08)
    then have "p - 1 / 2 \<le> 5404319552844594 / 18014398509481984" by simp
    then have "?d \<le> round_double (5404319552844594 / 18014398509481984)"
      by (rule round_double_mono)
    then have up: "?d \<le> 5404319552844594 / 18014398509481984" by (simp only: fix_L)
    from mid(1) have "- ?c \<le> p - 1 / 2" by simp
    then have "round_double (- ?c) \<le> ?d" by (rule round_double_mono)
    then have "- ?c \<le> ?d" by (simp only: round_double_minus fix_c03)
    with up have "\<not> ?c < \<bar>?d\<bar>" by simp
    then show ?thesis using mid by simp
  qed
  then show ?thesis using goal by simp
qed

section \<open>The subtraction stays finite\<close>

text \<open>
  The largest float is \<open>(2 ^ 53 - 1) * 2 ^ 971\<close>. Subtracting \<open>0.5\<close> from a float rounds
  to a number of at most this magnitude, which is why \<open>float_sub\<close> needs no infinity.
\<close>

lemma double_le_max:
  assumes "is_double p"
  shows "\<bar>p\<bar> * 2 ^ 1074 \<le> 2 ^ 2098 - 2 ^ 2045"
proof (cases "2 ^ (52 + 2045) \<le> \<bar>p\<bar> * 2 ^ 1074")
  case True
  then have le: "2045 \<le> ulp_shift p" by (rule ulp_shift_ge)
  define n where "n = rne (p * 2 ^ 1074 / 2 ^ ulp_shift p)"
  define k where "k = ulp_shift p - 2045"
  define U :: rat where "U = 2 ^ 2045"
  define A where "A = \<bar>n * 2 ^ k\<bar>"
  have U: "0 < U" by (simp add: U_def)
  have top: "2 ^ 1024 * 2 ^ 1074 = 2 ^ 53 * U" by (simp add: U_def)
  have s: "ulp_shift p = k + 2045" using le by (simp add: k_def)
  have fx: "round_double p = p" using assms by (simp add: is_double_def)
  have "p * 2 ^ 1074 = of_int n * 2 ^ ulp_shift p"
    using round_double_scaled [of p] unfolding fx n_def .
  then have "p * 2 ^ 1074 = of_int (n * 2 ^ k) * U"
    unfolding s U_def by (simp add: power_add del: power_numeral)
  then have "\<bar>p * 2 ^ 1074\<bar> = \<bar>rat_of_int (n * 2 ^ k) * U\<bar>" by (simp only:)
  then have eq: "\<bar>p\<bar> * 2 ^ 1074 = of_int A * U"
    using U by (simp add: abs_mult A_def del: power_numeral)
  have pos: "(0::rat) < 2 ^ 1074" by simp
  have "\<bar>p\<bar> < 2 ^ 1024" using assms by (simp add: is_double_def del: power_numeral)
  then have "\<bar>p\<bar> * 2 ^ 1074 < 2 ^ 1024 * 2 ^ 1074"
    using pos by (simp only: mult_less_cancel_right_pos)
  then have "rat_of_int A * U < of_int (2 ^ 53) * U"
    unfolding eq top by (simp del: power_numeral)
  then have "rat_of_int A < of_int (2 ^ 53)"
    using U by (simp only: mult_less_cancel_right_pos)
  then have "A < 2 ^ 53" by (simp only: of_int_less_iff)
  then have "A \<le> 2 ^ 53 - 1" by simp
  then have "rat_of_int A \<le> of_int (2 ^ 53 - 1)" by (simp only: of_int_le_iff)
  then have "rat_of_int A * U \<le> of_int (2 ^ 53 - 1) * U"
    using U by (simp only: mult_le_cancel_right_pos)
  then have "\<bar>p\<bar> * 2 ^ 1074 \<le> of_int (2 ^ 53 - 1) * U" by (simp only: eq)
  also have "of_int (2 ^ 53 - 1) * U = 2 ^ 2098 - 2 ^ 2045" by (simp add: U_def)
  finally show ?thesis .
next
  case False
  then show ?thesis by simp
qed

lemma round_double_max:
  "round_double ((2 ^ 2098 - 2 ^ 2045) / 2 ^ 1074 + 1 / 2) = (2 ^ 2098 - 2 ^ 2045) / 2 ^ 1074"
proof -
  let ?x = "(2 ^ 2098 - 2 ^ 2045) / 2 ^ 1074 + 1 / 2 :: rat"
  have s: "ulp_shift ?x = 2045"
    by (rule ulp_shift_eq) simp_all
  have "rne (?x * 2 ^ 1074 / 2 ^ 2045) = 2 ^ 53 - 1"
    by (rule rne_near) simp
  then show ?thesis unfolding round_double_def s by simp
qed

lemma float_sub_half_finite:
  assumes "is_double p"
  shows "\<bar>float_sub p (round_double 0.5)\<bar> < 2 ^ 1024"
proof -
  let ?M = "(2 ^ 2098 - 2 ^ 2045) / 2 ^ 1074 :: rat"
  have "\<bar>p\<bar> * 2 ^ 1074 \<le> 2 ^ 2098 - 2 ^ 2045" using assms by (rule double_le_max)
  then have b: "\<bar>p\<bar> \<le> ?M" by (simp add: le_divide_eq del: power_numeral)
  then have "p - 1 / 2 \<le> ?M + 1 / 2" by linarith
  then have "round_double (p - 1 / 2) \<le> round_double (?M + 1 / 2)" by (rule round_double_mono)
  then have up: "round_double (p - 1 / 2) \<le> ?M" by (simp only: round_double_max)
  from b have "- (?M + 1 / 2) \<le> p - 1 / 2" by linarith
  then have "round_double (- (?M + 1 / 2)) \<le> round_double (p - 1 / 2)"
    by (rule round_double_mono)
  then have lo: "- ?M \<le> round_double (p - 1 / 2)"
    by (simp only: round_double_minus round_double_max)
  have "?M < 2 ^ 1024" by simp
  with up lo have "\<bar>round_double (p - 1 / 2)\<bar> < 2 ^ 1024" by linarith
  then show ?thesis by (simp only: float_sub_def float_0_5)
qed

section \<open>The constants of the source and the example calls\<close>

lemma float_0_35: "round_double 0.35 = 6305039478318694 / 18014398509481984"
  using round_double_near [of 54 "0.35" 6305039478318694] by simp

lemma float_0_45: "round_double 0.45 = 8106479329266893 / 18014398509481984"
  using round_double_near [of 54 "0.45" 8106479329266893] by simp

lemma float_0_60: "round_double 0.60 = 5404319552844595 / 9007199254740992"
  using round_double_near [of 53 "0.60" 5404319552844595] by simp

lemma float_0_6: "round_double 0.6 = 5404319552844595 / 9007199254740992"
  using round_double_near [of 53 "0.6" 5404319552844595] by simp

lemma float_0_4: "round_double 0.4 = 7205759403792794 / 18014398509481984"
  using round_double_near [of 54 "0.4" 7205759403792794] by simp

lemma round_double_0: "round_double 0 = 0"
  by (simp add: round_double_def ulp_shift_def rne_def)

lemma round_double_half: "round_double (1 / 2) = 1 / 2"
  using round_double_near [of 53 "1 / 2" 4503599627370496] by simp

lemma round_double_13_16: "round_double (13 / 16) = 13 / 16"
  using round_double_near [of 53 "13 / 16" 7318349394477056] by simp

lemma round_double_5_16: "round_double (5 / 16) = 5 / 16"
  using round_double_near [of 54 "5 / 16" 5629499534213120] by simp

lemmas float_consts =
  float_0_2 float_0_3 float_0_35 float_0_4 float_0_45 float_0_5 float_0_6 float_0_60 float_0_8

lemmas demo_defs =
  predizer_diabetes_def DataFrame_def getitem_def thresholds_contexto_def interpretar_risco_def
  feature_columns_demo_def dados_limitrofe_def scaler_demo_def modelo_demo_def
  float_sub_def float_abs_def

lemma demo_13_16:
  "predizer_diabetes dados_limitrofe (modelo_demo (13 / 16)) scaler_demo feature_columns_demo t
     ''triagem'' =
   Inr \<lparr>predicao = DIABETES, probabilidade = 13 / 16, nivel_risco = MUITO_ALTO,
        descricao_risco = descricao_MUITO_ALTO, threshold_usado = round_double 0.35,
        contexto = ''triagem'', confianca = Alta\<rparr>"
  unfolding demo_defs float_consts by (simp add: round_double_5_16)

lemma demo_half_preventiva:
  "predizer_diabetes dados_limitrofe (modelo_demo (1 / 2)) scaler_demo feature_columns_demo t
     ''preventiva'' =
   Inr \<lparr>predicao = NAO_DIABETES, probabilidade = 1 / 2, nivel_risco = MODERADO,
        descricao_risco = descricao_MODERADO, threshold_usado = round_double 0.60,
        contexto = ''preventiva'', confianca = Moderada\<rparr>"
  unfolding demo_defs float_consts by (simp add: round_double_0)

lemma t_ord: "round_double 0.35 \<le> round_double 0.45" "round_double 0.45 \<le> round_double 0.60"
  by (rule round_double_mono, simp)+

lemma str_distinct: "DIABETES \<noteq> NAO_DIABETES" "Alta \<noteq> Moderada"
  "distinct [MUITO_ALTO, ALTO, MODERADO, BAIXO, MUITO_BAIXO]"
  by (simp_all add: DIABETES_def NAO_DIABETES_def Alta_def Moderada_def
     MUITO_ALTO_def ALTO_def MODERADO_def BAIXO_def MUITO_BAIXO_def)

lemma demo_half:
  "predizer_diabetes dados_limitrofe (modelo_demo (1 / 2)) scaler_demo feature_columns_demo t
     ''triagem'' =
   Inr \<lparr>predicao = DIABETES, probabilidade = 1 / 2, nivel_risco = MODERADO,
        descricao_risco = descricao_MODERADO, threshold_usado = round_double 0.35,
        contexto = ''triagem'', confianca = Moderada\<rparr>"
  unfolding demo_defs float_consts by (simp add: round_double_0 Let_def)

lemma demo_tie:
  "predizer_diabetes dados_limitrofe (modelo_demo (1 / 2)) scaler_demo feature_columns_demo (1 / 2)
     ''domiciliar'' =
   Inr \<lparr>predicao = DIABETES, probabilidade = 1 / 2, nivel_risco = MODERADO,
        descricao_risco = descricao_MODERADO, threshold_usado = 1 / 2,
        contexto = ''domiciliar'', confianca = Moderada\<rparr>"
  unfolding demo_defs float_consts by (simp add: round_double_0 Let_def)

section \<open>The claims\<close>



text \<open>
  Claim C2 (labeling). Whenever the frame is built, the scaler and the model return and
  the matrix has an entry \<^verbatim>\<open>[0][1]\<close>, the call returns a result whose probability is that
  entry \<open>p\<close> and whose threshold is the resolved one (the table value of a recognised
  context, else the argument); its label is \<^verbatim>\<open>DIABETES\<close> exactly when \<open>p\<close> is at least that
  threshold, and the negative label otherwise; \<open>p\<close> equal to the threshold gives
  \<^verbatim>\<open>DIABETES\<close>.
\<close>

theorem labeling:
  assumes "DataFrame d f = Inr dados_df"
      and "s dados_df = Inr dados_normalizados"
      and "m dados_normalizados = Inr proba"
      and "0 < length proba" and "1 < length (proba ! 0)"
  shows "\<exists>r. predizer_diabetes d m s f t c = Inr r
           \<and> probabilidade r = proba ! 0 ! 1
           \<and> threshold_usado r = (case thresholds_contexto c of Some t' \<Rightarrow> t' | None \<Rightarrow> t)
           \<and> (predicao r = DIABETES \<longleftrightarrow> threshold_usado r \<le> proba ! 0 ! 1)
           \<and> (predicao r = NAO_DIABETES \<longleftrightarrow> proba ! 0 ! 1 < threshold_usado r)
           \<and> (proba ! 0 ! 1 = threshold_usado r \<longrightarrow> predicao r = DIABETES)
           \<and> DIABETES \<noteq> NAO_DIABETES"
  using assms str_distinct(1)
  by (auto simp: predizer_diabetes_def getitem_def Let_def split: prod.splits)

theorem labeling_witness:
  "DataFrame dados_limitrofe feature_columns_demo = Inr (zip feature_columns_demo dados_limitrofe)
   \<and> scaler_demo (zip feature_columns_demo dados_limitrofe) = Inr dados_limitrofe
   \<and> modelo_demo (1 / 2) dados_limitrofe = Inr [[1 / 2, 1 / 2]]
   \<and> 0 < length [[1 / 2, 1 / 2 :: rat]] \<and> 1 < length ([[1 / 2, 1 / 2 :: rat]] ! 0)
   \<and> [[1 / 2, 1 / 2 :: rat]] ! 0 ! 1 = 1 / 2
   \<and> predizer_diabetes dados_limitrofe (modelo_demo (1 / 2)) scaler_demo feature_columns_demo
        (1 / 2) ''domiciliar'' =
      Inr \<lparr>predicao = DIABETES, probabilidade = 1 / 2, nivel_risco = MODERADO,
         descricao_risco = descricao_MODERADO, threshold_usado = 1 / 2,
         contexto = ''domiciliar'', confianca = Moderada\<rparr>"
proof -
  have a: "DataFrame dados_limitrofe feature_columns_demo =
      Inr (zip feature_columns_demo dados_limitrofe)"
    by (simp add: DataFrame_def feature_columns_demo_def dados_limitrofe_def)
  have b: "scaler_demo (zip feature_columns_demo dados_limitrofe) = Inr dados_limitrofe"
    by (simp add: scaler_demo_def feature_columns_demo_def dados_limitrofe_def)
  have c: "modelo_demo (1 / 2) dados_limitrofe = Inr [[1 / 2, 1 / 2]]"
    by (simp add: modelo_demo_def)
  have d: "0 < length [[1 / 2, 1 / 2 :: rat]]" "1 < length ([[1 / 2, 1 / 2 :: rat]] ! 0)"
    by simp_all
  show ?thesis
    using labeling [where d = dados_limitrofe and f = feature_columns_demo
        and s = scaler_demo and m = "modelo_demo (1 / 2)" and t = "1 / 2"
        and c = "''domiciliar''", OF a b c d] a b c demo_tie
    by simp
qed

text \<open>
  Claim C4 (schema violation). When the feature vector and the list of feature names
  differ in length, the call ends with the error of the frame construction and returns
  no result, whatever the model, the scaler, the threshold and the context are.
\<close>

theorem schema_violation:
  assumes "length d \<noteq> length f"
  shows "predizer_diabetes d m s f t c = Inl SchemaError"
  using assms by (simp add: predizer_diabetes_def DataFrame_def)

theorem schema_violation_witness:
  "length [2, 125, 80, 28, 120, 29.0, 0.5 :: rat] \<noteq> length feature_columns_demo
   \<and> predizer_diabetes [2, 125, 80, 28, 120, 29.0, 0.5] (modelo_demo (1 / 2)) scaler_demo
       feature_columns_demo (round_double 0.45) ''consulta_medica'' = Inl SchemaError"
proof -
  have h: "length [2, 125, 80, 28, 120, 29.0, 0.5 :: rat] \<noteq> length feature_columns_demo"
    by (simp add: feature_columns_demo_def)
  show ?thesis using h schema_violation [OF h] by simp
qed

text \<open>
  Claim C5 (the context does not reach the magnitude fields), as the source builds the
  record. The claim lets only the label and the threshold differ between two calls with
  different contexts. The record also echoes the context (key \<^verbatim>\<open>contexto\<close>), so the two
  calls below differ in a third field: replacing the label and the threshold of the
  first result by those of the second does not give the second.
\<close>

theorem context_field_counterexample:
  "predizer_diabetes dados_limitrofe (modelo_demo (1 / 2)) scaler_demo feature_columns_demo
     (round_double 0.45) ''triagem'' =
   Inr \<lparr>predicao = DIABETES, probabilidade = 1 / 2, nivel_risco = MODERADO,
        descricao_risco = descricao_MODERADO, threshold_usado = round_double 0.35,
        contexto = ''triagem'', confianca = Moderada\<rparr>
   \<and> predizer_diabetes dados_limitrofe (modelo_demo (1 / 2)) scaler_demo feature_columns_demo
     (round_double 0.45) ''preventiva'' =
   Inr \<lparr>predicao = NAO_DIABETES, probabilidade = 1 / 2, nivel_risco = MODERADO,
        descricao_risco = descricao_MODERADO, threshold_usado = round_double 0.60,
        contexto = ''preventiva'', confianca = Moderada\<rparr>
   \<and> ''triagem'' \<noteq> ''preventiva''
   \<and> \<lparr>predicao = NAO_DIABETES, probabilidade = 1 / 2, nivel_risco = MODERADO,
        descricao_risco = descricao_MODERADO, threshold_usado = round_double 0.60,
        contexto = ''preventiva'', confianca = Moderada\<rparr>
     \<noteq> \<lparr>predicao = DIABETES, probabilidade = 1 / 2, nivel_risco = MODERADO,
        descricao_risco = descricao_MODERADO, threshold_usado = round_double 0.35,
        contexto = ''triagem'', confianca = Moderada\<rparr>
       \<lparr>predicao := NAO_DIABETES, threshold_usado := round_double 0.60\<rparr>"
  using demo_half [of "round_double 0.45"] demo_half_preventiva [of "round_double 0.45"]
  by simp

text \<open>
  Claim C5, amended. Two calls on the same feature vector, model, scaler and feature
  names, with any two contexts and thresholds, return results with the same
  probability, risk level, risk description and confidence; only the label, the
  threshold used and the echoed context may differ: each result carries the context of
  its call, and the second result is the first with these three fields replaced.
\<close>

theorem context_noninterference:
  assumes "predizer_diabetes d m s f t1 c1 = Inr r1"
      and "predizer_diabetes d m s f t2 c2 = Inr r2"
  shows "probabilidade r1 = probabilidade r2
       \<and> nivel_risco r1 = nivel_risco r2
       \<and> descricao_risco r1 = descricao_risco r2
       \<and> confianca r1 = confianca r2
       \<and> contexto r1 = c1 \<and> contexto r2 = c2
       \<and> r2 = r1\<lparr>predicao := predicao r2, threshold_usado := threshold_usado r2,
                  contexto := c2\<rparr>"
  using assms
  by (auto simp: predizer_diabetes_def Let_def split: sum.splits prod.splits)

theorem context_noninterference_witness:
  "predizer_diabetes dados_limitrofe (modelo_demo (1 / 2)) scaler_demo feature_columns_demo
     (round_double 0.45) ''triagem'' =
   Inr \<lparr>predicao = DIABETES, probabilidade = 1 / 2, nivel_risco = MODERADO,
        descricao_risco = descricao_MODERADO, threshold_usado = round_double 0.35,
        contexto = ''triagem'', confianca = Moderada\<rparr>
   \<and> predizer_diabetes dados_limitrofe (modelo_demo (1 / 2)) scaler_demo feature_columns_demo
     (round_double 0.45) ''preventiva'' =
   Inr \<lparr>predicao = NAO_DIABETES, probabilidade = 1 / 2, nivel_risco = MODERADO,
        descricao_risco = descricao_MODERADO, threshold_usado = round_double 0.60,
        contexto = ''preventiva'', confianca = Moderada\<rparr>
   \<and> DIABETES \<noteq> NAO_DIABETES \<and> round_double 0.35 \<noteq> round_double 0.60"
  using demo_half [of "round_double 0.45"] demo_half_preventiva [of "round_double 0.45"]
    context_noninterference [OF demo_half [of "round_double 0.45"]
      demo_half_preventiva [of "round_double 0.45"]]
    str_distinct(1)
  unfolding float_consts by simp

lemma tier_bounds_ord:
  "round_double 0.2 \<le> round_double 0.4" "round_double 0.4 \<le> round_double 0.6"
  "round_double 0.6 \<le> round_double 0.8"
  by (rule round_double_mono, simp)+

lemma tier_distinct:
  "MUITO_ALTO \<noteq> ALTO" "MUITO_ALTO \<noteq> MODERADO" "MUITO_ALTO \<noteq> BAIXO" "MUITO_ALTO \<noteq> MUITO_BAIXO"
  "ALTO \<noteq> MODERADO" "ALTO \<noteq> BAIXO" "ALTO \<noteq> MUITO_BAIXO"
  "MODERADO \<noteq> BAIXO" "MODERADO \<noteq> MUITO_BAIXO" "BAIXO \<noteq> MUITO_BAIXO"
  by (simp_all add: MUITO_ALTO_def ALTO_def MODERADO_def BAIXO_def MUITO_BAIXO_def)

text \<open>
  Claim C3 (risk levels). For every probability \<open>p\<close> the level is exactly one of five
  distinct names, with the lower edge of each range included: very high from the float
  \<open>0.8\<close> on, high on \<open>[0.6, 0.8)\<close>, moderate on \<open>[0.4, 0.6)\<close>, low on \<open>[0.2, 0.4)\<close>, very low
  below \<open>0.2\<close>; each level comes with its own fixed description. The bounds are the floats
  that the literals of the source denote.
\<close>

theorem risk_tiers:
  "(fst (interpretar_risco p) = MUITO_ALTO \<longleftrightarrow> round_double 0.8 \<le> p)
   \<and> (fst (interpretar_risco p) = ALTO \<longleftrightarrow> round_double 0.6 \<le> p \<and> p < round_double 0.8)
   \<and> (fst (interpretar_risco p) = MODERADO \<longleftrightarrow> round_double 0.4 \<le> p \<and> p < round_double 0.6)
   \<and> (fst (interpretar_risco p) = BAIXO \<longleftrightarrow> round_double 0.2 \<le> p \<and> p < round_double 0.4)
   \<and> (fst (interpretar_risco p) = MUITO_BAIXO \<longleftrightarrow> p < round_double 0.2)
   \<and> interpretar_risco p \<in>
        {(MUITO_ALTO, descricao_MUITO_ALTO), (ALTO, descricao_ALTO),
         (MODERADO, descricao_MODERADO), (BAIXO, descricao_BAIXO),
         (MUITO_BAIXO, descricao_MUITO_BAIXO)}
   \<and> distinct [MUITO_ALTO, ALTO, MODERADO, BAIXO, MUITO_BAIXO]"
  using tier_bounds_ord tier_distinct
  by (auto simp: interpretar_risco_def)

text \<open>
  Claim C10 (the classifier is total). \<^verbatim>\<open>interpretar_risco\<close> returns one of its five pairs
  for every number, also outside \<open>[0, 1]\<close>, and never an error: from the float \<open>0.8\<close> on,
  so for every \<open>p > 1\<close>, the level is very high; below the float \<open>0.2\<close>, so for every
  negative \<open>p\<close>, it is very low.
\<close>

theorem interpretar_risco_total:
  "interpretar_risco p \<in>
        {(MUITO_ALTO, descricao_MUITO_ALTO), (ALTO, descricao_ALTO),
         (MODERADO, descricao_MODERADO), (BAIXO, descricao_BAIXO),
         (MUITO_BAIXO, descricao_MUITO_BAIXO)}
   \<and> (round_double 0.8 \<le> p \<longrightarrow> interpretar_risco p = (MUITO_ALTO, descricao_MUITO_ALTO))
   \<and> (1 < p \<longrightarrow> interpretar_risco p = (MUITO_ALTO, descricao_MUITO_ALTO))
   \<and> (p < round_double 0.2 \<longrightarrow> interpretar_risco p = (MUITO_BAIXO, descricao_MUITO_BAIXO))
   \<and> (p < 0 \<longrightarrow> interpretar_risco p = (MUITO_BAIXO, descricao_MUITO_BAIXO))"
proof -
  have hi: "round_double 0.8 \<le> 1" unfolding float_0_8 by simp
  have lo: "0 \<le> round_double 0.2" unfolding float_0_2 by simp
  show ?thesis
    using tier_bounds_ord hi lo by (auto simp: interpretar_risco_def)
qed

theorem interpretar_risco_total_witness:
  "round_double 0.8 \<le> 3 / 2 \<and> (1 :: rat) < 3 / 2
   \<and> interpretar_risco (3 / 2) = (MUITO_ALTO, descricao_MUITO_ALTO)
   \<and> - (1 / 4) < round_double 0.2 \<and> - (1 / 4) < (0 :: rat)
   \<and> interpretar_risco (- (1 / 4)) = (MUITO_BAIXO, descricao_MUITO_BAIXO)"
proof -
  have a: "round_double 0.8 \<le> 3 / 2" unfolding float_0_8 by simp
  have b: "- (1 / 4) < round_double 0.2" unfolding float_0_2 by simp
  show ?thesis
    using a b interpretar_risco_total [of "3 / 2"] interpretar_risco_total [of "- (1 / 4)"]
    by simp
qed


text \<open>
  A collaborator that keeps state breaks the property: with the counting model the
  second of two calls in a row returns another record than the first.
\<close>

lemma modelo_contador_not_deterministic:
  "fst (predizer_diabetes_st dados_limitrofe modelo_contador scaler_st_demo feature_columns_demo
          (round_double 0.45) ''triagem''
          (snd (predizer_diabetes_st dados_limitrofe modelo_contador scaler_st_demo
                  feature_columns_demo (round_double 0.45) ''triagem'' 0)))
   \<noteq> fst (predizer_diabetes_st dados_limitrofe modelo_contador scaler_st_demo
            feature_columns_demo (round_double 0.45) ''triagem'' 0)"
  by (simp add: predizer_diabetes_st_def DataFrame_def getitem_def feature_columns_demo_def
      dados_limitrofe_def scaler_st_demo_def scaler_demo_def modelo_contador_def Let_def
      split: prod.splits)



lemma call_succeeds_any_context:
  assumes "predizer_diabetes d m s f t c = Inr r"
  shows "\<exists>r'. predizer_diabetes d m s f t' c' = Inr r'"
  using assms
  by (auto simp: predizer_diabetes_def Let_def split: sum.splits prod.splits)

lemma same_probabilidade:
  assumes "predizer_diabetes d m s f t1 c1 = Inr r1"
      and "predizer_diabetes d m s f t2 c2 = Inr r2"
  shows "probabilidade r1 = probabilidade r2"
  using assms
  by (auto simp: predizer_diabetes_def Let_def split: sum.splits prod.splits)

lemma predicao_iff:
  assumes "predizer_diabetes d m s f t c = Inr r"
  shows "predicao r = DIABETES \<longleftrightarrow> threshold_usado r \<le> probabilidade r"
  using assms str_distinct(1)
  by (elim predizer_diabetes_Inr) auto

lemma two_calls:
  assumes "predizer_diabetes d m s f t1 c1 = Inr r1"
      and "predizer_diabetes d m s f t2 c2 = Inr r2"
  shows "probabilidade r1 = probabilidade r2
       \<and> (predicao r1 = DIABETES \<longleftrightarrow> threshold_usado r1 \<le> probabilidade r1)
       \<and> (predicao r2 = DIABETES \<longleftrightarrow> threshold_usado r2 \<le> probabilidade r2)"
  using same_probabilidade [OF assms] predicao_iff [OF assms(1)] predicao_iff [OF assms(2)]
  by simp

lemma threshold_usado_contexto:
  assumes "predizer_diabetes d m s f t c = Inr r"
  shows "threshold_usado r = (case thresholds_contexto c of Some t' \<Rightarrow> t' | None \<Rightarrow> t)"
  using assms by (elim predizer_diabetes_Inr) simp

lemma positivos_subset:
  assumes c: "thresholds_contexto c = Some u" and c': "thresholds_contexto c' = Some u'"
      and le: "u' \<le> u"
  shows "{d. \<exists>r. predizer_diabetes d m s f t c = Inr r \<and> predicao r = DIABETES}
       \<subseteq> {d. \<exists>r. predizer_diabetes d m s f t' c' = Inr r \<and> predicao r = DIABETES}"
proof
  fix d
  assume "d \<in> {d. \<exists>r. predizer_diabetes d m s f t c = Inr r \<and> predicao r = DIABETES}"
  then obtain r where r: "predizer_diabetes d m s f t c = Inr r" and pos: "predicao r = DIABETES"
    by auto
  from r obtain r' where r': "predizer_diabetes d m s f t' c' = Inr r'"
    using call_succeeds_any_context by blast
  have tu: "threshold_usado r = u" "threshold_usado r' = u'"
    using threshold_usado_contexto [OF r] threshold_usado_contexto [OF r'] c c' by simp_all
  have "threshold_usado r \<le> probabilidade r" using two_calls [OF r r'] pos by simp
  then have "threshold_usado r' \<le> probabilidade r'"
    using two_calls [OF r r'] tu le by simp
  then have "predicao r' = DIABETES" using two_calls [OF r r'] by simp
  then show "d \<in> {d. \<exists>r. predizer_diabetes d m s f t' c' = Inr r \<and> predicao r = DIABETES}"
    using r' by auto
qed

text \<open>
  Claim C8 (the label is monotone in the threshold). For two calls on the same feature
  vector, model, scaler and names, if the threshold used by the first is at most the
  threshold used by the second and the second is labelled \<^verbatim>\<open>DIABETES\<close>, so is the first.
  Consequently the feature vectors labelled \<^verbatim>\<open>DIABETES\<close> under \<^verbatim>\<open>preventiva\<close> (0.60) are
  among those under \<^verbatim>\<open>consulta_medica\<close> (0.45), which are among those under \<^verbatim>\<open>triagem\<close>
  (0.35).
\<close>

theorem label_monotone:
  "(\<forall>d t1 c1 t2 c2 r1 r2.
      predizer_diabetes d m s f t1 c1 = Inr r1 \<and> predizer_diabetes d m s f t2 c2 = Inr r2
      \<and> threshold_usado r1 \<le> threshold_usado r2 \<and> predicao r2 = DIABETES
      \<longrightarrow> predicao r1 = DIABETES)
   \<and> {d. \<exists>r. predizer_diabetes d m s f t ''preventiva'' = Inr r \<and> predicao r = DIABETES}
       \<subseteq> {d. \<exists>r. predizer_diabetes d m s f t ''consulta_medica'' = Inr r \<and> predicao r = DIABETES}
   \<and> {d. \<exists>r. predizer_diabetes d m s f t ''consulta_medica'' = Inr r \<and> predicao r = DIABETES}
       \<subseteq> {d. \<exists>r. predizer_diabetes d m s f t ''triagem'' = Inr r \<and> predicao r = DIABETES}"
proof (intro conjI allI impI)
  fix d t1 c1 t2 c2 r1 r2
  assume a: "predizer_diabetes d m s f t1 c1 = Inr r1 \<and> predizer_diabetes d m s f t2 c2 = Inr r2
      \<and> threshold_usado r1 \<le> threshold_usado r2 \<and> predicao r2 = DIABETES"
  then have "predizer_diabetes d m s f t1 c1 = Inr r1" "predizer_diabetes d m s f t2 c2 = Inr r2"
    by simp_all
  from two_calls [OF this] a show "predicao r1 = DIABETES" by simp
next
  show "{d. \<exists>r. predizer_diabetes d m s f t ''preventiva'' = Inr r \<and> predicao r = DIABETES}
       \<subseteq> {d. \<exists>r. predizer_diabetes d m s f t ''consulta_medica'' = Inr r \<and> predicao r = DIABETES}"
  proof (rule positivos_subset [where u = "round_double 0.60" and u' = "round_double 0.45"])
    show "thresholds_contexto ''preventiva'' = Some (round_double 0.60)"
      by (simp add: thresholds_contexto_def)
    show "thresholds_contexto ''consulta_medica'' = Some (round_double 0.45)"
      by (simp add: thresholds_contexto_def)
    show "round_double 0.45 \<le> round_double 0.60" by (rule t_ord)
  qed
next
  show "{d. \<exists>r. predizer_diabetes d m s f t ''consulta_medica'' = Inr r \<and> predicao r = DIABETES}
       \<subseteq> {d. \<exists>r. predizer_diabetes d m s f t ''triagem'' = Inr r \<and> predicao r = DIABETES}"
  proof (rule positivos_subset [where u = "round_double 0.45" and u' = "round_double 0.35"])
    show "thresholds_contexto ''consulta_medica'' = Some (round_double 0.45)"
      by (simp add: thresholds_contexto_def)
    show "thresholds_contexto ''triagem'' = Some (round_double 0.35)"
      by (simp add: thresholds_contexto_def)
    show "round_double 0.35 \<le> round_double 0.45" by (rule t_ord)
  qed
qed

theorem label_monotone_witness:
  "predizer_diabetes dados_limitrofe (modelo_demo (1 / 2)) scaler_demo feature_columns_demo
     (round_double 0.45) ''triagem'' =
   Inr \<lparr>predicao = DIABETES, probabilidade = 1 / 2, nivel_risco = MODERADO,
        descricao_risco = descricao_MODERADO, threshold_usado = round_double 0.35,
        contexto = ''triagem'', confianca = Moderada\<rparr>
   \<and> predizer_diabetes dados_limitrofe (modelo_demo (1 / 2)) scaler_demo feature_columns_demo
     (1 / 2) ''domiciliar'' =
   Inr \<lparr>predicao = DIABETES, probabilidade = 1 / 2, nivel_risco = MODERADO,
        descricao_risco = descricao_MODERADO, threshold_usado = 1 / 2,
        contexto = ''domiciliar'', confianca = Moderada\<rparr>
   \<and> round_double 0.35 \<le> 1 / 2"
proof -
  have le: "round_double 0.35 \<le> 1 / 2" unfolding float_0_35 by simp
  have "predicao \<lparr>predicao = DIABETES, probabilidade = 1 / 2, nivel_risco = MODERADO,
        descricao_risco = descricao_MODERADO, threshold_usado = round_double 0.35,
        contexto = ''triagem'', confianca = Moderada\<rparr> = DIABETES"
    using label_monotone [of "modelo_demo (1 / 2)" scaler_demo feature_columns_demo]
      demo_half [of "round_double 0.45"] demo_tie le
    by simp
  then show ?thesis using demo_half [of "round_double 0.45"] demo_tie le by simp
qed

lemma fix_float_0_8: "round_double (round_double 0.8) = round_double 0.8"
  unfolding float_0_8
  using round_double_near [of 53 "7205759403792794 / 9007199254740992" 7205759403792794]
  by simp

lemma fix_float_0_2: "round_double (round_double 0.2) = round_double 0.2"
  unfolding float_0_2
  using round_double_near [of 55 "7205759403792794 / 36028797018963968" 7205759403792794]
  by simp

lemma is_double_float_0_8: "is_double (round_double 0.8)"
  unfolding is_double_def using fix_float_0_8 unfolding float_0_8 by simp

lemma is_double_float_0_2: "is_double (round_double 0.2)"
  unfolding is_double_def using fix_float_0_2 unfolding float_0_2 by simp

lemma is_double_13_16: "is_double (13 / 16)"
  unfolding is_double_def using round_double_13_16 by simp

lemma is_double_half: "is_double (1 / 2)"
  unfolding is_double_def using round_double_half by simp

lemma demo_call:
  "predizer_diabetes dados_limitrofe (modelo_demo p) scaler_demo feature_columns_demo t c =
   Inr \<lparr>predicao =
          (if (case thresholds_contexto c of Some t' \<Rightarrow> t' | None \<Rightarrow> t) \<le> p
           then DIABETES else NAO_DIABETES),
        probabilidade = p,
        nivel_risco = fst (interpretar_risco p),
        descricao_risco = snd (interpretar_risco p),
        threshold_usado = (case thresholds_contexto c of Some t' \<Rightarrow> t' | None \<Rightarrow> t),
        contexto = c,
        confianca =
          (if round_double 0.3 < float_abs (float_sub p (round_double 0.5))
           then Alta else Moderada)\<rparr>"
  by (simp add: predizer_diabetes_def DataFrame_def getitem_def feature_columns_demo_def
      dados_limitrofe_def scaler_demo_def modelo_demo_def Let_def split: prod.splits)

lemma demo_0_8:
  "predizer_diabetes dados_limitrofe (modelo_demo (round_double 0.8)) scaler_demo
     feature_columns_demo (round_double 0.45) ''consulta_medica'' =
   Inr \<lparr>predicao = DIABETES, probabilidade = round_double 0.8, nivel_risco = MUITO_ALTO,
        descricao_risco = descricao_MUITO_ALTO, threshold_usado = round_double 0.45,
        contexto = ''consulta_medica'', confianca = Alta\<rparr>"
proof -
  have le: "round_double 0.45 \<le> round_double 0.8" by (rule round_double_mono) simp
  have tst: "round_double 0.3 < float_abs (float_sub (round_double 0.8) (round_double 0.5))"
    unfolding confianca_test_iff [OF fix_float_0_8] by simp
  have lk: "thresholds_contexto ''consulta_medica'' = Some (round_double 0.45)"
    by (simp add: thresholds_contexto_def)
  have tier: "interpretar_risco (round_double 0.8) = (MUITO_ALTO, descricao_MUITO_ALTO)"
    unfolding interpretar_risco_def by simp
  show ?thesis unfolding demo_call lk tier using le tst by simp
qed

lemma demo_0_2:
  "predizer_diabetes dados_limitrofe (modelo_demo (round_double 0.2)) scaler_demo
     feature_columns_demo (round_double 0.45) ''consulta_medica'' =
   Inr \<lparr>predicao = NAO_DIABETES, probabilidade = round_double 0.2, nivel_risco = BAIXO,
        descricao_risco = descricao_BAIXO, threshold_usado = round_double 0.45,
        contexto = ''consulta_medica'', confianca = Moderada\<rparr>"
proof -
  have le: "\<not> round_double 0.45 \<le> round_double 0.2" unfolding float_consts by simp
  have tst: "\<not> round_double 0.3 < float_abs (float_sub (round_double 0.2) (round_double 0.5))"
    unfolding confianca_test_iff [OF fix_float_0_2] unfolding float_consts by simp
  have lk: "thresholds_contexto ''consulta_medica'' = Some (round_double 0.45)"
    by (simp add: thresholds_contexto_def)
  have tier: "interpretar_risco (round_double 0.2) = (BAIXO, descricao_BAIXO)"
    unfolding interpretar_risco_def float_consts by simp
  show ?thesis unfolding demo_call lk tier using le tst by simp
qed

lemma confianca_iff:
  assumes "predizer_diabetes d m s f t c = Inr r"
  shows "(confianca r = Alta \<longleftrightarrow>
            round_double 0.3 < float_abs (float_sub (probabilidade r) (round_double 0.5)))
       \<and> (confianca r = Moderada \<longleftrightarrow>
            \<not> round_double 0.3 < float_abs (float_sub (probabilidade r) (round_double 0.5)))"
  using assms str_distinct(2)
  by (elim predizer_diabetes_Inr) auto

lemma nivel_risco_iff:
  assumes "predizer_diabetes d m s f t c = Inr r"
  shows "(nivel_risco r = MUITO_ALTO \<longleftrightarrow> round_double 0.8 \<le> probabilidade r)
       \<and> (nivel_risco r = MUITO_BAIXO \<longleftrightarrow> probabilidade r < round_double 0.2)"
  using assms tier_bounds_ord tier_distinct
  by (elim predizer_diabetes_Inr) (auto simp: interpretar_risco_def)

text \<open>
  Claim C6 (confidence tag), as the source computes it. The claim has the float \<open>0.8\<close>
  tagged \<^verbatim>\<open>Moderada\<close>, as a boundary case \<open>\<bar>p - 0.5\<bar> = 0.3\<close>. In float arithmetic
  \<^verbatim>\<open>0.8 - 0.5\<close> is the float next above \<^verbatim>\<open>0.3\<close>, so the call below, whose model returns the
  float \<open>0.8\<close>, is tagged \<^verbatim>\<open>Alta\<close>.
\<close>

theorem confianca_boundary_counterexample:
  "predizer_diabetes dados_limitrofe (modelo_demo (round_double 0.8)) scaler_demo
     feature_columns_demo (round_double 0.45) ''consulta_medica'' =
   Inr \<lparr>predicao = DIABETES, probabilidade = round_double 0.8, nivel_risco = MUITO_ALTO,
        descricao_risco = descricao_MUITO_ALTO, threshold_usado = round_double 0.45,
        contexto = ''consulta_medica'', confianca = Alta\<rparr>
   \<and> Alta \<noteq> Moderada
   \<and> float_sub (round_double 0.8) (round_double 0.5) = round_double 0.3 + 1 / 2 ^ 54"
proof -
  have "float_sub (round_double 0.8) (round_double 0.5) = round_double 0.3 + 1 / 2 ^ 54"
    unfolding float_sub_def float_consts
    using round_double_near [of 54 "7205759403792794 / 9007199254740992 - 1 / 2" 5404319552844596]
    by simp
  then show ?thesis using demo_0_8 str_distinct(2) by simp
qed

text \<open>
  Claim C6, amended. For every result whose probability \<open>p\<close> is a float, the confidence is
  \<^verbatim>\<open>Alta\<close> exactly when \<^verbatim>\<open>abs(p - 0.5) > 0.3\<close> holds in float arithmetic, and \<^verbatim>\<open>Moderada\<close>
  otherwise, whatever the context and the threshold; this is the case exactly when \<open>p\<close> is
  at least the float \<open>0.8\<close> or below the float \<open>0.2\<close>. A probability whose float difference
  from \<open>0.5\<close> has magnitude exactly \<open>0.3\<close> is tagged \<^verbatim>\<open>Moderada\<close>: the float \<open>0.2\<close> is such a
  probability, the float \<open>0.8\<close> is not and is tagged \<^verbatim>\<open>Alta\<close>.
\<close>

theorem confianca_tag:
  assumes "predizer_diabetes d m s f t c = Inr r" and "is_double (probabilidade r)"
  shows "(confianca r = Alta \<longleftrightarrow>
            round_double 0.3 < float_abs (float_sub (probabilidade r) (round_double 0.5)))
       \<and> (confianca r = Moderada \<longleftrightarrow>
            \<not> round_double 0.3 < float_abs (float_sub (probabilidade r) (round_double 0.5)))
       \<and> (confianca r = Alta \<longleftrightarrow>
            round_double 0.8 \<le> probabilidade r \<or> probabilidade r < round_double 0.2)
       \<and> (float_abs (float_sub (probabilidade r) (round_double 0.5)) = round_double 0.3
            \<longrightarrow> confianca r = Moderada)
       \<and> (probabilidade r = round_double 0.2 \<longrightarrow> confianca r = Moderada)
       \<and> (probabilidade r = round_double 0.8 \<longrightarrow> confianca r = Alta)"
proof -
  have fx: "round_double (probabilidade r) = probabilidade r"
    using assms(2) by (simp add: is_double_def)
  note c = confianca_iff [OF assms(1)]
  note t = confianca_test_iff [OF fx]
  have a: "confianca r = Alta \<longleftrightarrow>
      round_double 0.8 \<le> probabilidade r \<or> probabilidade r < round_double 0.2"
    using c t by simp
  have lt: "round_double 0.2 < round_double 0.8" unfolding float_consts by simp
  have "probabilidade r = round_double 0.2 \<longrightarrow> confianca r = Moderada"
    using c t lt by auto
  moreover have "probabilidade r = round_double 0.8 \<longrightarrow> confianca r = Alta"
    using a by simp
  moreover have "float_abs (float_sub (probabilidade r) (round_double 0.5)) = round_double 0.3
      \<longrightarrow> confianca r = Moderada"
    using c by simp
  ultimately show ?thesis using c a by blast
qed

theorem confianca_tag_witness:
  "is_double (round_double 0.8) \<and> is_double (round_double 0.2)
   \<and> predizer_diabetes dados_limitrofe (modelo_demo (round_double 0.8)) scaler_demo
     feature_columns_demo (round_double 0.45) ''consulta_medica'' =
   Inr \<lparr>predicao = DIABETES, probabilidade = round_double 0.8, nivel_risco = MUITO_ALTO,
        descricao_risco = descricao_MUITO_ALTO, threshold_usado = round_double 0.45,
        contexto = ''consulta_medica'', confianca = Alta\<rparr>
   \<and> predizer_diabetes dados_limitrofe (modelo_demo (round_double 0.2)) scaler_demo
     feature_columns_demo (round_double 0.45) ''consulta_medica'' =
   Inr \<lparr>predicao = NAO_DIABETES, probabilidade = round_double 0.2, nivel_risco = BAIXO,
        descricao_risco = descricao_BAIXO, threshold_usado = round_double 0.45,
        contexto = ''consulta_medica'', confianca = Moderada\<rparr>
   \<and> round_double 0.3 < float_abs (float_sub (round_double 0.8) (round_double 0.5))
   \<and> float_abs (float_sub (round_double 0.2) (round_double 0.5)) = round_double 0.3"
proof -
  have "float_sub (round_double 0.2) (round_double 0.5) = - round_double 0.3"
    unfolding float_sub_def float_consts
    using round_double_near
      [of 54 "7205759403792794 / 36028797018963968 - 1 / 2" "- 5404319552844595"]
    by simp
  moreover have "0 \<le> round_double 0.3" unfolding float_0_3 by simp
  ultimately have b: "float_abs (float_sub (round_double 0.2) (round_double 0.5)) = round_double 0.3"
    by (simp add: float_abs_def)
  show ?thesis
    using confianca_tag [OF demo_0_8] confianca_tag [OF demo_0_2]
      demo_0_8 demo_0_2 is_double_float_0_8 is_double_float_0_2 str_distinct(2) b
    by simp
qed

text \<open>
  Claim C9 (confidence and risk level). In every result whose probability is a float, a
  confidence \<^verbatim>\<open>Alta\<close> comes with the level very high or very low; a result of level
  moderate, low or high has confidence \<^verbatim>\<open>Moderada\<close>.
\<close>

theorem confianca_alta_extreme_tier:
  assumes "predizer_diabetes d m s f t c = Inr r" and "is_double (probabilidade r)"
  shows "(confianca r = Alta \<longrightarrow> nivel_risco r = MUITO_ALTO \<or> nivel_risco r = MUITO_BAIXO)
       \<and> (nivel_risco r = MODERADO \<or> nivel_risco r = BAIXO \<or> nivel_risco r = ALTO
            \<longrightarrow> confianca r = Moderada)"
proof -
  have fx: "round_double (probabilidade r) = probabilidade r"
    using assms(2) by (simp add: is_double_def)
  note c = confianca_iff [OF assms(1)]
  note t = confianca_test_iff [OF fx]
  note n = nivel_risco_iff [OF assms(1)]
  have a: "confianca r = Alta \<longrightarrow> nivel_risco r = MUITO_ALTO \<or> nivel_risco r = MUITO_BAIXO"
    using c t n by simp
  have "nivel_risco r = MODERADO \<or> nivel_risco r = BAIXO \<or> nivel_risco r = ALTO
            \<longrightarrow> confianca r = Moderada"
    using c t n tier_distinct by auto
  with a show ?thesis by simp
qed

theorem confianca_alta_extreme_tier_witness:
  "is_double (13 / 16) \<and> is_double (1 / 2)
   \<and> predizer_diabetes dados_limitrofe (modelo_demo (13 / 16)) scaler_demo feature_columns_demo
       (round_double 0.45) ''triagem'' =
     Inr \<lparr>predicao = DIABETES, probabilidade = 13 / 16, nivel_risco = MUITO_ALTO,
        descricao_risco = descricao_MUITO_ALTO, threshold_usado = round_double 0.35,
        contexto = ''triagem'', confianca = Alta\<rparr>
   \<and> predizer_diabetes dados_limitrofe (modelo_demo (1 / 2)) scaler_demo feature_columns_demo
       (round_double 0.45) ''preventiva'' =
     Inr \<lparr>predicao = NAO_DIABETES, probabilidade = 1 / 2, nivel_risco = MODERADO,
        descricao_risco = descricao_MODERADO, threshold_usado = round_double 0.60,
        contexto = ''preventiva'', confianca = Moderada\<rparr>"
  using confianca_alta_extreme_tier [OF demo_13_16 [of "round_double 0.45"]]
    confianca_alta_extreme_tier [OF demo_half_preventiva [of "round_double 0.45"]]
    demo_13_16 [of "round_double 0.45"] demo_half_preventiva [of "round_double 0.45"]
    is_double_13_16 is_double_half
  by simp

end
